theory Spec2Isabelle
  imports Main "HOL-Library.Sublist"
begin

section \<open>The packaging manifest \<open>data-services/smd-service/src/setup.py\<close>\<close>

text \<open>
  The repository's only source file is a setuptools manifest: one \<open>from ... import\<close>
  statement and one call of \<open>setup\<close> with keyword arguments.  The file is embedded as
  its syntax tree (section \<open>Syntax\<close>), the tree is evaluated to the keyword values that
  \<open>setup\<close> receives (section \<open>Evaluation\<close>), and these are turned into the
  descriptor of the distribution (section \<open>The descriptor\<close>).

  What the manifest leaves to the packaging tool is modelled as far as the manifest
  uses it: shell-style matching of package names against the \<open>exclude\<close> patterns, the
  \<open>name = module:attr\<close> form of an entry point, and the comparison of a release number
  with a requirement such as \<open>>=3\<close>.  The packages that exist on disk are not part of
  the manifest; they are the parameter \<open>found\<close> of the evaluation.
\<close>

subsection \<open>Syntax\<close>

text \<open>
  Expressions, following the node kinds of Python's \<open>ast\<close> module: string and integer
  constants, names, attribute access, subscription, list and dict displays, and calls
  with positional and keyword arguments.
\<close>

datatype expr =
    Str string
  | Num int
  | Name string
  | Attribute expr string
  | Subscript expr expr
  | ListE "expr list"
  | DictE "(expr \<times> expr) list"
  | Call expr "expr list" "(string \<times> expr) list"

text \<open>
  Statements carry the first and the last line they occupy.  \<open>ImportFrom\<close> is
  \<open>from module import names\<close>; \<open>Expr\<close> is an expression statement.  The remaining
  constructors are the statement kinds the manifest could have used and does not.
\<close>

datatype stmt =
    ImportFrom nat nat string "string list"
  | Import nat nat "string list"
  | Expr nat nat expr
  | Assign nat nat string expr
  | FunctionDef nat nat string "stmt list"
  | ClassDef nat nat string "stmt list"
  | If nat nat expr "stmt list" "stmt list"
  | For nat nat string expr "stmt list"
  | While nat nat expr "stmt list"
  | Try nat nat "stmt list" "stmt list"

text \<open>The keyword arguments of the \<open>setup\<close> call, lines 4 to 17 of the file.\<close>

definition setup_kwargs :: "(string \<times> expr) list" where
  "setup_kwargs =
    [(''name'', Str ''importer''),
     (''version'', Str ''0.1.0''),
     (''python_requires'', Str ''>=3''),
     (''packages'',
        Call (Name ''find_packages'') []
          [(''exclude'', ListE [Str ''docs'', Str ''tests*''])]),
     (''entry_points'',
        DictE [(Str ''console_scripts'',
                ListE [Str ''glueservice = glueservice.__main__:main''])]),
     (''author'', Str ''Marco Peise''),
     (''author_email'', Str ''mp@ise.tu-berlin.de''),
     (''license'', Str ''MIT License'')]"

text \<open>The file: the import on line 1, the call on lines 3 to 18.\<close>

definition setup_py :: "stmt list" where
  "setup_py =
    [ImportFrom 1 1 ''setuptools'' [''setup'', ''find_packages''],
     Expr 3 18 (Call (Name ''setup'') [] setup_kwargs)]"

fun last_line :: "stmt \<Rightarrow> nat" where
  "last_line (ImportFrom a b _ _) = b"
| "last_line (Import a b _) = b"
| "last_line (Expr a b _) = b"
| "last_line (Assign a b _ _) = b"
| "last_line (FunctionDef a b _ _) = b"
| "last_line (ClassDef a b _ _) = b"
| "last_line (If a b _ _ _) = b"
| "last_line (For a b _ _ _) = b"
| "last_line (While a b _ _) = b"
| "last_line (Try a b _ _) = b"

text \<open>The number of lines of a file is the last line of its last statement.\<close>

definition line_count :: "stmt list \<Rightarrow> nat" where
  "line_count m = (case rev m of [] \<Rightarrow> 0 | s # _ \<Rightarrow> last_line s)"

text \<open>
  A constant expression is a literal: a string, a number, or a list or dict display
  of constant expressions.  A name, an attribute, a subscription and a call are not.
\<close>

fun is_constant :: "expr \<Rightarrow> bool" where
  "is_constant (Str s) = True"
| "is_constant (Num n) = True"
| "is_constant (ListE es) = list_all is_constant es"
| "is_constant (DictE kvs) = list_all (\<lambda>kv. is_constant (fst kv) \<and> is_constant (snd kv)) kvs"
| "is_constant (Name x) = False"
| "is_constant (Attribute e a) = False"
| "is_constant (Subscript e i) = False"
| "is_constant (Call f args kws) = False"

text \<open>
  Every identifier an expression mentions: names and attribute names, in source order.
  Text inside string constants is not an identifier.
\<close>

fun names_of :: "expr \<Rightarrow> string list" where
  "names_of (Str s) = []"
| "names_of (Num n) = []"
| "names_of (Name x) = [x]"
| "names_of (Attribute e a) = names_of e @ [a]"
| "names_of (Subscript e i) = names_of e @ names_of i"
| "names_of (ListE es) = concat (map names_of es)"
| "names_of (DictE kvs) = concat (map (\<lambda>kv. names_of (fst kv) @ names_of (snd kv)) kvs)"
| "names_of (Call f args kws) =
     names_of f @ concat (map names_of args) @ concat (map (\<lambda>kw. names_of (snd kw)) kws)"

text \<open>
  The identifiers through which Python code reaches the process environment:
  the module \<open>os\<close> and its members \<open>environ\<close>, \<open>environb\<close>, \<open>getenv\<close>, \<open>getenvb\<close>,
  \<open>putenv\<close> and \<open>unsetenv\<close>.
\<close>

definition environment_names :: "string list" where
  "environment_names =
    [''os'', ''environ'', ''environb'', ''getenv'', ''getenvb'', ''putenv'', ''unsetenv'']"

definition references_environment :: "expr \<Rightarrow> bool" where
  "references_environment e = list_ex (\<lambda>n. n \<in> set environment_names) (names_of e)"

text \<open>The modules a file imports, with the names taken from each.\<close>

fun imports_of :: "stmt list \<Rightarrow> (string \<times> string list) list" where
  "imports_of [] = []"
| "imports_of (ImportFrom a b m ns # ss) = (m, ns) # imports_of ss"
| "imports_of (Import a b ms # ss) = map (\<lambda>m. (m, [])) ms @ imports_of ss"
| "imports_of (s # ss) = imports_of ss"

subsection \<open>Package discovery\<close>

text \<open>
  \<open>fnmatchcase name pat\<close>: case-sensitive shell-style matching of a whole name against a
  pattern, where \<open>*\<close> stands for any run of characters (also an empty one, also one
  with dots) and \<open>?\<close> for any one character.  Bracketed character sets are not
  modelled; neither pattern of the manifest contains a bracket.
\<close>

fun fnmatchcase :: "string \<Rightarrow> string \<Rightarrow> bool" where
  "fnmatchcase [] [] = True"
| "fnmatchcase (c # cs) [] = False"
| "fnmatchcase [] (p # ps) = (p = CHR ''*'' \<and> fnmatchcase [] ps)"
| "fnmatchcase (c # cs) (p # ps) =
     (if p = CHR ''*'' then fnmatchcase (c # cs) ps \<or> fnmatchcase cs (p # ps)
      else (p = CHR ''?'' \<or> p = c) \<and> fnmatchcase cs ps)"

text \<open>A name passes a filter built from patterns when some pattern matches it.\<close>

definition build_filter :: "string list \<Rightarrow> string \<Rightarrow> bool" where
  "build_filter pats name = list_ex (fnmatchcase name) pats"

text \<open>
  The package finder of the packaging tool carries two pattern lists of its own:
  \<open>ALWAYS_EXCLUDE\<close>, put in front of every exclusion list, and \<open>DEFAULT_EXCLUDE\<close>, used
  in place of an empty one.
\<close>

definition ALWAYS_EXCLUDE :: "string list" where
  "ALWAYS_EXCLUDE = [''ez_setup'', ''*__pycache__'']"

definition DEFAULT_EXCLUDE :: "string list" where
  "DEFAULT_EXCLUDE = []"

text \<open>
  \<open>find_packages(exclude, include)\<close> over the dotted package names \<open>found\<close> on disk:
  a package is kept when the include filter accepts it and the exclude filter, built
  from \<open>ALWAYS_EXCLUDE\<close> followed by the caller's patterns, does not.  Every name is
  judged alone; excluding a package says nothing about the packages below it.  (The
  finder does not descend below a package \<open>p\<close> when \<open>p*\<close> or \<open>p.*\<close> is itself one of the
  patterns; every name below \<open>p\<close> matches such a pattern, so nothing is lost by
  judging those names too.)
\<close>

definition find_packages :: "string list \<Rightarrow> string list \<Rightarrow> string list \<Rightarrow> string list" where
  "find_packages found exclude include =
     filter
       (\<lambda>p. build_filter include p
          \<and> \<not> build_filter
                (ALWAYS_EXCLUDE @ (if exclude = [] then DEFAULT_EXCLUDE else exclude)) p)
       found"

subsection \<open>Evaluation\<close>

datatype val =
    VStr string
  | VInt int
  | VList "val list"
  | VDict "(val \<times> val) list"

fun is_str :: "val \<Rightarrow> bool" where
  "is_str (VStr s) = True"
| "is_str v = False"

fun str_of :: "val \<Rightarrow> string option" where
  "str_of (VStr s) = Some s"
| "str_of v = None"

definition strs_of :: "val \<Rightarrow> string list option" where
  "strs_of v = (case v of VList vs \<Rightarrow> those (map str_of vs) | _ \<Rightarrow> None)"

definition both :: "'a option \<Rightarrow> 'b option \<Rightarrow> ('a \<times> 'b) option" where
  "both a b = (case a of None \<Rightarrow> None | Some x \<Rightarrow> map_option (Pair x) b)"

text \<open>
  The value of an expression, \<open>None\<close> where Python would raise.  The only callable the
  evaluation knows is \<open>find_packages\<close>, called with the one keyword \<open>exclude\<close> as the
  manifest calls it; its \<open>include\<close> parameter then has its default, the single pattern
  \<open>*\<close>.  Names, attributes and subscriptions have no value here: the manifest binds
  no variable.
\<close>

fun eval :: "string list \<Rightarrow> expr \<Rightarrow> val option" where
  "eval found (Str s) = Some (VStr s)"
| "eval found (Num n) = Some (VInt n)"
| "eval found (ListE es) = map_option VList (those (map (eval found) es))"
| "eval found (DictE kvs) =
     map_option VDict
       (those (map (\<lambda>kv. both (eval found (fst kv)) (eval found (snd kv))) kvs))"
| "eval found (Call (Name f) [] [(k, e)]) =
     (if f = ''find_packages'' \<and> k = ''exclude'' then
        (case eval found e of
           None \<Rightarrow> None
         | Some v \<Rightarrow>
             map_option (\<lambda>pats. VList (map VStr (find_packages found pats [''*''])))
               (strs_of v))
      else None)"
| "eval found (Call f args kws) = None"
| "eval found (Name x) = None"
| "eval found (Attribute e a) = None"
| "eval found (Subscript e i) = None"

text \<open>The keyword arguments of a call, each evaluated, in source order.\<close>

definition eval_keywords :: "string list \<Rightarrow> (string \<times> expr) list \<Rightarrow> (string \<times> val) list option" where
  "eval_keywords found kws =
     those (map (\<lambda>kw. map_option (Pair (fst kw)) (eval found (snd kw))) kws)"

subsection \<open>Entry points\<close>

definition is_space :: "char \<Rightarrow> bool" where
  "is_space c = (c = CHR '' '' \<or> c = CHR 0x09 \<or> c = CHR 0x0A \<or> c = CHR 0x0D)"

definition strip :: "string \<Rightarrow> string" where
  "strip s = rev (dropWhile is_space (rev (dropWhile is_space s)))"

definition is_word_char :: "char \<Rightarrow> bool" where
  "is_word_char c =
     (c \<in> set ''abcdefghijklmnopqrstuvwxyzABCDEFGHIJKLMNOPQRSTUVWXYZ0123456789_'')"

text \<open>A dotted path: a non-empty run of word characters and dots.\<close>

definition is_dotted :: "string \<Rightarrow> bool" where
  "is_dotted s = (s \<noteq> [] \<and> list_all (\<lambda>c. is_word_char c \<or> c = CHR ''.'') s)"

record entry_point =
  ep_name :: string
  ep_module :: string
  ep_attr :: "string option"

text \<open>
  An entry-point specification has the form \<open>name = module:attr\<close>, the \<open>:attr\<close> part
  optional, blanks around \<open>=\<close> and \<open>:\<close> ignored.  The name ends at the first \<open>=\<close>.
  Extras in brackets after the target are not modelled.
\<close>

definition parse_entry_point :: "string \<Rightarrow> entry_point option" where
  "parse_entry_point s =
     (let nm = strip (takeWhile (\<lambda>c. c \<noteq> CHR ''='') s);
          rest = dropWhile (\<lambda>c. c \<noteq> CHR ''='') s;
          tgt = strip (drop 1 rest);
          m = strip (takeWhile (\<lambda>c. c \<noteq> CHR '':'') tgt);
          r = dropWhile (\<lambda>c. c \<noteq> CHR '':'') tgt;
          a = strip (drop 1 r)
      in if rest = [] \<or> nm = [] \<or> \<not> is_dotted m then None
         else if r = [] then Some \<lparr>ep_name = nm, ep_module = m, ep_attr = None\<rparr>
         else if is_dotted a then Some \<lparr>ep_name = nm, ep_module = m, ep_attr = Some a\<rparr>
         else None)"

text \<open>
  The \<open>entry_points\<close> argument as a dict from group names to lists of specifications;
  every specification is parsed.
\<close>

definition parse_group :: "val \<times> val \<Rightarrow> (string \<times> entry_point list) option" where
  "parse_group g =
     both (str_of (fst g))
       (case strs_of (snd g) of
          None \<Rightarrow> None
        | Some specs \<Rightarrow> those (map parse_entry_point specs))"

definition parse_entry_points :: "val \<Rightarrow> (string \<times> entry_point list) list option" where
  "parse_entry_points v =
     (case v of VDict groups \<Rightarrow> those (map parse_group groups) | _ \<Rightarrow> None)"

subsection \<open>Release numbers and requirements\<close>

fun split_on :: "char \<Rightarrow> string \<Rightarrow> string list" where
  "split_on sep [] = [[]]"
| "split_on sep (c # cs) =
     (if c = sep then [] # split_on sep cs
      else (case split_on sep cs of
              [] \<Rightarrow> [[c]]
            | w # ws \<Rightarrow> (c # w) # ws))"

definition digit_of :: "char \<Rightarrow> nat option" where
  "digit_of = map_of (zip ''0123456789'' [0, 1, 2, 3, 4, 5, 6, 7, 8, 9])"

definition parse_nat :: "string \<Rightarrow> nat option" where
  "parse_nat s =
     (if s = [] then None
      else map_option (foldl (\<lambda>a d. 10 * a + d) 0) (those (map digit_of s)))"

text \<open>
  A release number is a dotted sequence of naturals, \<open>N(.N)*\<close>.  Pre-, post- and
  development releases and epochs are not modelled.
\<close>

definition parse_release :: "string \<Rightarrow> nat list option" where
  "parse_release s = those (map parse_nat (split_on CHR ''.'' (strip s)))"

datatype comparison = Below | Same | Above

text \<open>
  Release numbers are compared component by component, the shorter one padded with
  zeros: \<open>3\<close>, \<open>3.0\<close> and \<open>3.0.0\<close> are the same release.
\<close>

fun release_cmp :: "nat list \<Rightarrow> nat list \<Rightarrow> comparison" where
  "release_cmp [] [] = Same"
| "release_cmp [] (b # bs) = (if 0 < b then Below else release_cmp [] bs)"
| "release_cmp (a # as) [] = (if 0 < a then Above else release_cmp as [])"
| "release_cmp (a # as) (b # bs) =
     (if a < b then Below else if b < a then Above else release_cmp as bs)"

datatype operator = OpGE | OpLE | OpGT | OpLT | OpEQ | OpNE

definition parse_operator :: "string \<Rightarrow> operator option" where
  "parse_operator =
     map_of [(''>='', OpGE), (''<='', OpLE), (''>'', OpGT), (''<'', OpLT),
             (''=='', OpEQ), (''!='', OpNE)]"

fun holds :: "operator \<Rightarrow> comparison \<Rightarrow> bool" where
  "holds OpGE c = (c \<noteq> Below)"
| "holds OpLE c = (c \<noteq> Above)"
| "holds OpGT c = (c = Above)"
| "holds OpLT c = (c = Below)"
| "holds OpEQ c = (c = Same)"
| "holds OpNE c = (c \<noteq> Same)"

definition is_op_char :: "char \<Rightarrow> bool" where
  "is_op_char c = (c \<in> set ''<>=!~'')"

text \<open>One clause of a requirement: an operator and a release number.\<close>

definition parse_specifier :: "string \<Rightarrow> (operator \<times> nat list) option" where
  "parse_specifier s =
     both (parse_operator (takeWhile is_op_char (strip s)))
          (parse_release (dropWhile is_op_char (strip s)))"

text \<open>A requirement is a comma-separated list of clauses, all of which must hold.\<close>

definition parse_requirement :: "string \<Rightarrow> (operator \<times> nat list) list option" where
  "parse_requirement s = those (map parse_specifier (split_on CHR '','' s))"

definition satisfies :: "nat list \<Rightarrow> string \<Rightarrow> bool" where
  "satisfies v req =
     (case parse_requirement req of
        None \<Rightarrow> False
      | Some clauses \<Rightarrow> list_all (\<lambda>cl. holds (fst cl) (release_cmp v (snd cl))) clauses)"

subsection \<open>The descriptor\<close>

record descriptor =
  name :: string
  version :: string
  python_requires :: string
  packages :: "string list"
  entry_points :: "(string \<times> entry_point list) list"
  author :: string
  author_email :: string
  license :: string

definition lookup_str :: "(string \<times> val) list \<Rightarrow> string \<Rightarrow> string option" where
  "lookup_str kv k = (case map_of kv k of Some (VStr s) \<Rightarrow> Some s | _ \<Rightarrow> None)"

text \<open>
  The descriptor that \<open>setup\<close> makes of its keyword values.  The model covers calls that
  give all eight keywords of the manifest, with values of the types the manifest
  gives them; any other call has no descriptor here.
\<close>

definition distribution :: "(string \<times> val) list \<Rightarrow> descriptor option" where
  "distribution kv =
     Option.bind (lookup_str kv ''name'') (\<lambda>n.
     Option.bind (lookup_str kv ''version'') (\<lambda>v.
     Option.bind (lookup_str kv ''python_requires'') (\<lambda>r.
     Option.bind (Option.bind (map_of kv ''packages'') strs_of) (\<lambda>ps.
     Option.bind (Option.bind (map_of kv ''entry_points'') parse_entry_points) (\<lambda>eps.
     Option.bind (lookup_str kv ''author'') (\<lambda>a.
     Option.bind (lookup_str kv ''author_email'') (\<lambda>m.
     Option.bind (lookup_str kv ''license'') (\<lambda>l.
       Some \<lparr>name = n, version = v, python_requires = r, packages = ps,
             entry_points = eps, author = a, author_email = m, license = l\<rparr>))))))))"

definition setuptools_setup :: "string list \<Rightarrow> (string \<times> expr) list \<Rightarrow> descriptor option" where
  "setuptools_setup found kws = Option.bind (eval_keywords found kws) distribution"

text \<open>
  Running a manifest of the shape of \<open>setup.py\<close>: an import of \<open>setup\<close> and
  \<open>find_packages\<close> from \<open>setuptools\<close>, then one call of \<open>setup\<close> with keyword arguments
  only.
\<close>

definition run_module :: "string list \<Rightarrow> stmt list \<Rightarrow> descriptor option" where
  "run_module found m =
     (case m of
        [ImportFrom a b modname ns, Expr c d (Call (Name f) [] kws)] \<Rightarrow>
          if modname = ''setuptools'' \<and> ''setup'' \<in> set ns \<and> ''find_packages'' \<in> set ns
             \<and> f = ''setup''
          then setuptools_setup found kws else None
      | _ \<Rightarrow> None)"

text \<open>The console commands a descriptor registers: the entries of group \<open>console_scripts\<close>.\<close>

definition console_scripts :: "descriptor \<Rightarrow> entry_point list" where
  "console_scripts d = concat (map snd (filter (\<lambda>g. fst g = ''console_scripts'') (entry_points d)))"

text \<open>Replacing the value of one keyword of a call statement.\<close>

fun set_keyword :: "string \<Rightarrow> expr \<Rightarrow> stmt \<Rightarrow> stmt" where
  "set_keyword k e (Expr a b (Call f args kws)) =
     Expr a b (Call f args (map (\<lambda>kw. if fst kw = k then (k, e) else kw) kws))"
| "set_keyword k e s = s"

subsection \<open>Predicates on the shape of a manifest\<close>

fun import_stmt :: "stmt \<Rightarrow> bool" where
  "import_stmt (ImportFrom a b m ns) = True"
| "import_stmt (Import a b ms) = True"
| "import_stmt s = False"

text \<open>
  The keyword arguments of a statement that is nothing but a call of \<open>setup\<close> without
  positional arguments; \<open>None\<close> for any other statement.
\<close>

fun setup_call_keywords :: "stmt \<Rightarrow> (string \<times> expr) list option" where
  "setup_call_keywords (Expr a b (Call (Name f) [] kws)) =
     (if f = ''setup'' then Some kws else None)"
| "setup_call_keywords s = None"

text \<open>The keywords of the manifest that carry plain metadata text.\<close>

definition string_fields :: "string list" where
  "string_fields =
     [''name'', ''version'', ''python_requires'', ''author'', ''author_email'', ''license'']"

text \<open>
  A metadata text is well formed when it is not empty and, for the two fields the
  packaging tool reads further, parses: the version as a release number, the
  language requirement as a requirement.
\<close>

definition well_formed :: "string \<Rightarrow> string \<Rightarrow> bool" where
  "well_formed k s =
     (s \<noteq> [] \<and>
      (if k = ''version'' then parse_release s \<noteq> None
       else if k = ''python_requires'' then parse_requirement s \<noteq> None
       else True))"

section \<open>Properties\<close>

subsection \<open>Matching and parsing\<close>

lemma fnmatchcase_star: "fnmatchcase n ''*''"
  by (induction n) auto

lemma fnmatchcase_literal:
  "CHR ''*'' \<notin> set pat \<Longrightarrow> CHR ''?'' \<notin> set pat \<Longrightarrow> fnmatchcase n pat = (n = pat)"
  by (induction n pat rule: fnmatchcase.induct) auto

lemma fnmatchcase_literal_star:
  "CHR ''*'' \<notin> set pre \<Longrightarrow> CHR ''?'' \<notin> set pre \<Longrightarrow>
   fnmatchcase n (pre @ ''*'') = prefix pre n"
proof (induction pre arbitrary: n)
  case Nil
  show ?case using fnmatchcase_star by simp
next
  case (Cons p ps)
  show ?case
  proof (cases n)
    case Nil
    with Cons.prems show ?thesis by auto
  next
    case (Cons c cs)
    with Cons.prems Cons.IH [of cs] show ?thesis by auto
  qed
qed

lemma fnmatchcase_docs: "fnmatchcase p ''docs'' = (p = ''docs'')"
  by (rule fnmatchcase_literal) simp_all

lemma fnmatchcase_tests: "fnmatchcase p ''tests*'' = prefix ''tests'' p"
  using fnmatchcase_literal_star [of "''tests''" p] by simp

lemma fnmatchcase_star_literal:
  "CHR ''*'' \<notin> set suf \<Longrightarrow> CHR ''?'' \<notin> set suf \<Longrightarrow>
   fnmatchcase n (''*'' @ suf) = suffix suf n"
proof (induction n)
  case Nil
  then show ?case using fnmatchcase_literal [of suf "[]"] by auto
next
  case (Cons c cs)
  then show ?case
    using fnmatchcase_literal [of suf "c # cs"] by (auto simp add: suffix_Cons)
qed

lemma fnmatchcase_ez_setup: "fnmatchcase p ''ez_setup'' = (p = ''ez_setup'')"
  by (rule fnmatchcase_literal) simp_all

lemma fnmatchcase_pycache: "fnmatchcase p ''*__pycache__'' = suffix ''__pycache__'' p"
  using fnmatchcase_star_literal [of "''__pycache__''" p] by simp

lemma build_filter_exclude:
  "build_filter [''docs'', ''tests*''] p = (p = ''docs'' \<or> fnmatchcase p ''tests*'')"
  by (simp add: build_filter_def fnmatchcase_docs)

lemma build_filter_always_exclude:
  "build_filter (ALWAYS_EXCLUDE @ pats) p =
     (p = ''ez_setup'' \<or> fnmatchcase p ''*__pycache__'' \<or> build_filter pats p)"
  by (simp add: build_filter_def ALWAYS_EXCLUDE_def fnmatchcase_ez_setup)

lemma build_filter_include: "build_filter [''*''] p"
  by (simp add: build_filter_def fnmatchcase_star)

lemma find_packages_manifest:
  "set (find_packages found [''docs'', ''tests*''] [''*'']) =
     {p \<in> set found.
        \<not> (p = ''docs'' \<or> fnmatchcase p ''tests*''
           \<or> p = ''ez_setup'' \<or> fnmatchcase p ''*__pycache__'')}"
  by (auto simp add: find_packages_def build_filter_always_exclude build_filter_exclude
      build_filter_include)

lemma parse_glueservice:
  "parse_entry_point ''glueservice = glueservice.__main__:main'' =
     Some \<lparr>ep_name = ''glueservice'', ep_module = ''glueservice.__main__'',
           ep_attr = Some ''main''\<rparr>"
  by (simp add: parse_entry_point_def strip_def is_space_def is_dotted_def
      is_word_char_def Let_def)

lemma parse_release_version: "parse_release ''0.1.0'' = Some [0, 1, 0]"
  by (simp add: parse_release_def parse_nat_def digit_of_def strip_def is_space_def)

lemma parse_requirement_ge3: "parse_requirement ''>=3'' = Some [(OpGE, [3])]"
  by (simp add: parse_requirement_def parse_specifier_def parse_operator_def
      parse_release_def parse_nat_def digit_of_def is_op_char_def strip_def
      is_space_def both_def)

lemma release_cmp_zeros: "release_cmp v [] \<noteq> Below"
  by (induction v) auto

subsection \<open>Running the manifest\<close>

lemma those_str_of: "those (map (str_of \<circ> VStr) xs) = Some xs"
  by (induction xs) auto

lemma eval_setup_kwargs:
  "eval_keywords found setup_kwargs = Some
    [(''name'', VStr ''importer''),
     (''version'', VStr ''0.1.0''),
     (''python_requires'', VStr ''>=3''),
     (''packages'', VList (map VStr (find_packages found [''docs'', ''tests*''] [''*'']))),
     (''entry_points'',
        VDict [(VStr ''console_scripts'',
                VList [VStr ''glueservice = glueservice.__main__:main''])]),
     (''author'', VStr ''Marco Peise''),
     (''author_email'', VStr ''mp@ise.tu-berlin.de''),
     (''license'', VStr ''MIT License'')]"
  by (simp add: eval_keywords_def setup_kwargs_def both_def strs_of_def)

lemma setup_manifest:
  "setuptools_setup found setup_kwargs = Some
     \<lparr>name = ''importer'', version = ''0.1.0'', python_requires = ''>=3'',
      packages = find_packages found [''docs'', ''tests*''] [''*''],
      entry_points =
        [(''console_scripts'',
          [\<lparr>ep_name = ''glueservice'', ep_module = ''glueservice.__main__'',
            ep_attr = Some ''main''\<rparr>])],
      author = ''Marco Peise'', author_email = ''mp@ise.tu-berlin.de'',
      license = ''MIT License''\<rparr>"
  by (simp add: setuptools_setup_def eval_setup_kwargs distribution_def lookup_str_def
      strs_of_def those_str_of parse_entry_points_def parse_group_def both_def
      parse_glueservice)

lemma run_setup_py:
  "run_module found setup_py = Some
     \<lparr>name = ''importer'', version = ''0.1.0'', python_requires = ''>=3'',
      packages = find_packages found [''docs'', ''tests*''] [''*''],
      entry_points =
        [(''console_scripts'',
          [\<lparr>ep_name = ''glueservice'', ep_module = ''glueservice.__main__'',
            ep_attr = Some ''main''\<rparr>])],
      author = ''Marco Peise'', author_email = ''mp@ise.tu-berlin.de'',
      license = ''MIT License''\<rparr>"
  by (simp add: run_module_def setup_py_def setup_manifest)

lemma setup_with_authorship:
  "setuptools_setup found
     [(''name'', Str ''importer''),
      (''version'', Str ''0.1.0''),
      (''python_requires'', Str ''>=3''),
      (''packages'',
         Call (Name ''find_packages'') []
           [(''exclude'', ListE [Str ''docs'', Str ''tests*''])]),
      (''entry_points'',
         DictE [(Str ''console_scripts'',
                 ListE [Str ''glueservice = glueservice.__main__:main''])]),
      (''author'', Str a),
      (''author_email'', Str m),
      (''license'', Str l)] = Some
     \<lparr>name = ''importer'', version = ''0.1.0'', python_requires = ''>=3'',
      packages = find_packages found [''docs'', ''tests*''] [''*''],
      entry_points =
        [(''console_scripts'',
          [\<lparr>ep_name = ''glueservice'', ep_module = ''glueservice.__main__'',
            ep_attr = Some ''main''\<rparr>])],
      author = a, author_email = m, license = l\<rparr>"
  by (simp add: setuptools_setup_def eval_keywords_def both_def strs_of_def
      distribution_def lookup_str_def those_str_of parse_entry_points_def
      parse_group_def parse_glueservice)

section \<open>The claims\<close>

text \<open>
  Claim C1.  The manifest registers exactly one console command.  Its name is the
  literal string \<open>glueservice\<close> and its target is \<open>glueservice.__main__:main\<close>, that is
  attribute \<open>main\<close> of module \<open>glueservice.__main__\<close>.  The manifest's \<open>entry_points\<close>
  argument has the one group \<open>console_scripts\<close> with that one specification, so no
  other console command is declared.
\<close>

theorem single_console_command_glueservice:
  "map_option console_scripts (run_module found setup_py) =
     Some [\<lparr>ep_name = ''glueservice'', ep_module = ''glueservice.__main__'',
            ep_attr = Some ''main''\<rparr>]
   \<and> map_option (\<lambda>d. map fst (entry_points d)) (run_module found setup_py) =
       Some [''console_scripts'']
   \<and> map_of setup_kwargs ''entry_points'' =
       Some (DictE [(Str ''console_scripts'',
                     ListE [Str ''glueservice = glueservice.__main__:main''])])"
  by (simp add: run_setup_py console_scripts_def setup_kwargs_def)

text \<open>
  Claim C2.  The package name the manifest declares is the literal string
  \<open>importer\<close>: as written in the call and as it stands in the descriptor.
\<close>

theorem package_name_importer:
  "map_of setup_kwargs ''name'' = Some (Str ''importer'')
   \<and> map_option name (run_module found setup_py) = Some ''importer''"
  by (simp add: run_setup_py setup_kwargs_def)

text \<open>
  Claim C3, as amended.  Whatever packages are found on disk, the descriptor's packages
  are among them, and a found package is left out of the distribution if and only if
  its name is exactly \<open>docs\<close>, or matches the pattern \<open>tests*\<close>, or falls under one of
  the finder's own two patterns, \<open>ez_setup\<close> and \<open>*__pycache__\<close>; every other found
  package is in.
\<close>

theorem package_exclusion_policy:
  "\<exists>d. run_module found setup_py = Some d
     \<and> set (packages d) \<subseteq> set found
     \<and> (\<forall>p \<in> set found.
          (p \<notin> set (packages d)) =
            (p = ''docs'' \<or> fnmatchcase p ''tests*''
             \<or> p = ''ez_setup'' \<or> fnmatchcase p ''*__pycache__''))"
  by (auto simp add: run_setup_py find_packages_manifest)

theorem package_exclusion_policy_witness:
  "\<exists>d. run_module
         [''importer'', ''docs'', ''docs.subpkg'', ''tests'', ''tests.unit'',
          ''testsuite'', ''ez_setup'', ''glueservice''] setup_py = Some d
     \<and> ''docs'' \<notin> set (packages d) \<and> ''tests'' \<notin> set (packages d)
     \<and> ''tests.unit'' \<notin> set (packages d) \<and> ''testsuite'' \<notin> set (packages d)
     \<and> ''ez_setup'' \<notin> set (packages d)
     \<and> ''importer'' \<in> set (packages d) \<and> ''docs.subpkg'' \<in> set (packages d)
     \<and> ''glueservice'' \<in> set (packages d)"
  using package_exclusion_policy
    [of "[''importer'', ''docs'', ''docs.subpkg'', ''tests'', ''tests.unit'',
          ''testsuite'', ''ez_setup'', ''glueservice'']"]
  by auto

text \<open>
  Claim C3, as stated, fails: with the packages \<open>importer\<close> and \<open>ez_setup\<close> on disk the
  distribution holds \<open>importer\<close> alone, although \<open>ez_setup\<close> is neither \<open>docs\<close> nor a
  match of \<open>tests*\<close>.
\<close>

theorem ez_setup_left_out:
  "map_option packages (run_module [''importer'', ''ez_setup''] setup_py) =
     Some [''importer'']
   \<and> ''ez_setup'' \<in> set [''importer'', ''ez_setup'']
   \<and> ''ez_setup'' \<noteq> ''docs''
   \<and> \<not> fnmatchcase ''ez_setup'' ''tests*''"
  unfolding run_setup_py
  by (simp add: find_packages_def build_filter_def ALWAYS_EXCLUDE_def)

text \<open>
  Claim C4.  The declared version is the string \<open>0.1.0\<close>, a release number of the
  three components major 0, minor 1, patch 0, and the declared language requirement
  is the string \<open>>=3\<close>.
\<close>

theorem version_and_language_requirement:
  "map_of setup_kwargs ''version'' = Some (Str ''0.1.0'')
   \<and> map_of setup_kwargs ''python_requires'' = Some (Str ''>=3'')
   \<and> map_option (\<lambda>d. (version d, python_requires d)) (run_module found setup_py) =
       Some (''0.1.0'', ''>=3'')
   \<and> map_option (\<lambda>d. parse_release (version d)) (run_module found setup_py) =
       Some (Some [0, 1, 0])"
  by (simp add: run_setup_py setup_kwargs_def parse_release_version)

text \<open>
  Claim C5.  Each of the fields name, version, python_requires, author, author_email
  and license is written as a string literal, evaluates to a string (not a number, a
  list or a dict), and that string is well formed.  The entry-point group holds a
  single specification, a string literal that parses as an entry point.
\<close>

theorem metadata_fields_are_strings:
  "\<exists>kv. eval_keywords found setup_kwargs = Some kv
     \<and> (\<forall>k \<in> set string_fields.
          \<exists>s. map_of setup_kwargs k = Some (Str s) \<and> map_of kv k = Some (VStr s)
             \<and> is_str (VStr s) \<and> well_formed k s)
     \<and> (\<exists>spec.
          map_of setup_kwargs ''entry_points'' =
            Some (DictE [(Str ''console_scripts'', ListE [Str spec])])
          \<and> map_of kv ''entry_points'' =
              Some (VDict [(VStr ''console_scripts'', VList [VStr spec])])
          \<and> parse_entry_point spec \<noteq> None)"
  unfolding eval_setup_kwargs
  by (simp add: setup_kwargs_def string_fields_def well_formed_def
      parse_release_version parse_requirement_ge3 parse_glueservice)

theorem metadata_fields_are_strings_witness:
  "\<exists>s. map_of setup_kwargs ''version'' = Some (Str s) \<and> well_formed ''version'' s"
proof -
  from metadata_fields_are_strings [of "[]"]
  obtain kv where
    "\<forall>k \<in> set string_fields.
       \<exists>s. map_of setup_kwargs k = Some (Str s) \<and> map_of kv k = Some (VStr s)
          \<and> is_str (VStr s) \<and> well_formed k s"
    by blast
  moreover have "''version'' \<in> set string_fields"
    by (simp add: string_fields_def)
  ultimately show ?thesis by blast
qed

text \<open>
  Claim C6.  The manifest declares no environment variables.  The file imports from
  \<open>setuptools\<close> only; its second statement is the \<open>setup\<close> call, whose keywords are the
  eight metadata keywords; the only identifier in the arguments is \<open>find_packages\<close>;
  and no argument mentions \<open>os\<close>, \<open>environ\<close>, \<open>getenv\<close> or a relative of theirs.
\<close>

theorem no_environment_variables:
  "imports_of setup_py = [(''setuptools'', [''setup'', ''find_packages''])]
   \<and> map setup_call_keywords setup_py = [None, Some setup_kwargs]
   \<and> map fst setup_kwargs =
       [''name'', ''version'', ''python_requires'', ''packages'', ''entry_points'',
        ''author'', ''author_email'', ''license'']
   \<and> concat (map (\<lambda>kw. names_of (snd kw)) setup_kwargs) = [''find_packages'']
   \<and> (\<forall>kw \<in> set setup_kwargs. \<not> references_environment (snd kw))"
  by (simp add: setup_py_def setup_kwargs_def references_environment_def
      environment_names_def)

theorem no_environment_variables_witness:
  "\<not> references_environment
       (Call (Name ''find_packages'') []
          [(''exclude'', ListE [Str ''docs'', Str ''tests*''])])"
proof -
  have "(''packages'',
         Call (Name ''find_packages'') []
           [(''exclude'', ListE [Str ''docs'', Str ''tests*''])]) \<in> set setup_kwargs"
    by (simp add: setup_kwargs_def)
  with no_environment_variables show ?thesis by fastforce
qed

text \<open>
  Claim C7, as amended.  The file has 18 lines and two statements: an import and a call
  of \<open>setup\<close> with keyword arguments only.  There is no assignment, definition or
  control flow.  Every argument but \<open>packages\<close> is a constant; \<open>packages\<close> is a call of
  \<open>find_packages\<close> whose one argument, the exclusion list, is a constant.
\<close>

theorem declarative_manifest_shape:
  "length setup_py = 2
   \<and> line_count setup_py = 18
   \<and> map import_stmt setup_py = [True, False]
   \<and> map setup_call_keywords setup_py = [None, Some setup_kwargs]
   \<and> (\<forall>kw \<in> set setup_kwargs. fst kw \<noteq> ''packages'' \<longrightarrow> is_constant (snd kw))
   \<and> (\<exists>c. map_of setup_kwargs ''packages'' =
             Some (Call (Name ''find_packages'') [] [(''exclude'', c)])
          \<and> is_constant c)"
  by (simp add: setup_py_def setup_kwargs_def line_count_def)

theorem declarative_manifest_shape_witness:
  "is_constant
     (DictE [(Str ''console_scripts'',
              ListE [Str ''glueservice = glueservice.__main__:main''])])"
proof -
  have "(''entry_points'',
         DictE [(Str ''console_scripts'',
                 ListE [Str ''glueservice = glueservice.__main__:main''])])
        \<in> set setup_kwargs"
    by (simp add: setup_kwargs_def)
  with declarative_manifest_shape show ?thesis by fastforce
qed

text \<open>
  Claim C7, as stated, fails: the \<open>packages\<close> argument of the \<open>setup\<close> call is not a
  constant but a call of \<open>find_packages\<close>, and its value changes with the packages
  found on disk.
\<close>

theorem packages_argument_not_constant:
  "map setup_call_keywords setup_py = [None, Some setup_kwargs]
   \<and> map_of setup_kwargs ''packages'' =
       Some (Call (Name ''find_packages'') []
               [(''exclude'', ListE [Str ''docs'', Str ''tests*''])])
   \<and> \<not> is_constant
         (Call (Name ''find_packages'') []
            [(''exclude'', ListE [Str ''docs'', Str ''tests*''])])
   \<and> \<not> list_all (\<lambda>kw. is_constant (snd kw)) setup_kwargs
   \<and> map_option packages (run_module [] setup_py) = Some []
   \<and> map_option packages (run_module [''importer''] setup_py) = Some [''importer'']"
  unfolding run_setup_py
  by (simp add: setup_py_def setup_kwargs_def find_packages_def build_filter_def
      ALWAYS_EXCLUDE_def)

text \<open>
  Claim C8.  The author, the author's e-mail address and the license are the strings
  \<open>Marco Peise\<close>, \<open>mp@ise.tu-berlin.de\<close> and \<open>MIT License\<close>.  Writing any other three
  strings in their place changes these three fields of the descriptor and no other.
\<close>

theorem authorship_fields_frame:
  "map_option (\<lambda>d. (author d, author_email d, license d)) (run_module found setup_py) =
     Some (''Marco Peise'', ''mp@ise.tu-berlin.de'', ''MIT License'')
   \<and> run_module found
         (map (set_keyword ''author'' (Str a) \<circ> set_keyword ''author_email'' (Str m)
               \<circ> set_keyword ''license'' (Str l)) setup_py) =
       map_option (\<lambda>d. d\<lparr>author := a, author_email := m, license := l\<rparr>)
         (run_module found setup_py)"
  unfolding run_setup_py
  by (simp add: setup_py_def setup_kwargs_def run_module_def setup_with_authorship)

text \<open>
  Claim C9.  The exclusion list given to package discovery is the two patterns
  \<open>docs\<close> and \<open>tests*\<close>.  A package named \<open>tests\<close> is excluded, since \<open>tests*\<close> matches
  \<open>tests\<close> itself.  The package \<open>docs.subpkg\<close> is not excluded: it is in the
  distribution whenever it is found, since \<open>docs\<close> matches the name \<open>docs\<close> only.
\<close>

theorem exclusion_list_tests_and_docs_subpackage:
  "map_of setup_kwargs ''packages'' =
     Some (Call (Name ''find_packages'') []
             [(''exclude'', ListE [Str ''docs'', Str ''tests*''])])
   \<and> eval found (ListE [Str ''docs'', Str ''tests*'']) =
       Some (VList [VStr ''docs'', VStr ''tests*''])
   \<and> map_option packages (run_module found setup_py) =
       Some (find_packages found [''docs'', ''tests*''] [''*''])
   \<and> fnmatchcase ''tests'' ''tests*''
   \<and> build_filter [''docs'', ''tests*''] ''tests''
   \<and> \<not> fnmatchcase ''docs.subpkg'' ''docs''
   \<and> \<not> build_filter [''docs'', ''tests*''] ''docs.subpkg''
   \<and> ''tests'' \<notin> set (find_packages found [''docs'', ''tests*''] [''*''])
   \<and> (''docs.subpkg'' \<in> set (find_packages found [''docs'', ''tests*''] [''*''])) =
       (''docs.subpkg'' \<in> set found)"
  by (simp add: setup_kwargs_def run_setup_py find_packages_manifest build_filter_def)

theorem exclusion_list_tests_and_docs_subpackage_witness:
  "''tests'' \<notin> set (find_packages [''docs'', ''docs.subpkg'', ''tests''] [''docs'', ''tests*''] [''*''])
   \<and> ''docs.subpkg'' \<in> set (find_packages [''docs'', ''docs.subpkg'', ''tests''] [''docs'', ''tests*''] [''*''])"
  using exclusion_list_tests_and_docs_subpackage [of "[''docs'', ''docs.subpkg'', ''tests'']"]
  by simp

text \<open>
  Claim C10.  The declared language requirement is the single clause \<open>>=3\<close>: a lower
  bound on the release, with no upper bound and nothing said about the minor version.
  A language release with major component \<open>major\<close>, whatever components follow it,
  satisfies the requirement exactly when \<open>major\<close> is at least 3; so 3.0 does, and no
  2.x does.
\<close>

theorem language_requirement_major_at_least_3:
  "map_option (\<lambda>d. parse_requirement (python_requires d)) (run_module found setup_py) =
     Some (Some [(OpGE, [3])])
   \<and> map_option (\<lambda>d. satisfies (major # rest) (python_requires d))
         (run_module found setup_py) = Some (3 \<le> major)"
  using release_cmp_zeros [of rest]
  by (auto simp add: run_setup_py satisfies_def parse_requirement_ge3)

end
